theory Spec2Isabelle
  imports Main "HOL-Library.Word" "HOL-Library.Sublist"
begin

section \<open>The functions emulator: dispatch, discovery and the log decoder\<close>

text \<open>
  A shallow embedding of \<^verbatim>\<open>src/emulator/functionsEmulator.ts\<close>. Mutable members of the
  emulator object are fields of a state record that every operation takes and returns;
  a thrown exception or a rejected promise is the \<open>Inl\<close> of a sum; collaborators that
  live outside the file (the emulator registry, the HTTP client, the JSON and log
  parsers, the constants table) are parameters.
\<close>

subsection \<open>Text and bytes\<close>

text \<open>
  A \<^verbatim>\<open>Buffer\<close> is a list of bytes. The text a process writes is a JavaScript string,
  a list of UTF-16 code units; names, resources and other identifiers are \<open>string\<close>s.
\<close>

type_synonym byte = "8 word"
type_synonym utf16 = "16 word list"

definition str :: "string \<Rightarrow> utf16" where
  "str s = map (\<lambda>c. of_nat (of_char c)) s"

text \<open>
  \<^verbatim>\<open>buf.toString()\<close> decodes the bytes of one buffer as UTF-8, on its own: a sequence
  that is ill-formed or cut off by the end of the buffer becomes U+FFFD. The decoder
  keeps the code point built so far, the number of continuation bytes still needed and
  the bounds the next continuation byte must lie in.
\<close>

function utf8_decode :: "nat \<Rightarrow> nat \<Rightarrow> nat \<Rightarrow> nat \<Rightarrow> nat list \<Rightarrow> nat list" where
  "utf8_decode cp needed lo hi [] = (if needed = 0 then [] else [0xFFFD])"
| "utf8_decode cp needed lo hi (b # bs) =
     (if needed = 0 then
        (if b \<le> 0x7F then b # utf8_decode 0 0 0x80 0xBF bs
         else if 0xC2 \<le> b \<and> b \<le> 0xDF then utf8_decode (b mod 32) 1 0x80 0xBF bs
         else if 0xE0 \<le> b \<and> b \<le> 0xEF then
           utf8_decode (b mod 16) 2 (if b = 0xE0 then 0xA0 else 0x80)
             (if b = 0xED then 0x9F else 0xBF) bs
         else if 0xF0 \<le> b \<and> b \<le> 0xF4 then
           utf8_decode (b mod 8) 3 (if b = 0xF0 then 0x90 else 0x80)
             (if b = 0xF4 then 0x8F else 0xBF) bs
         else 0xFFFD # utf8_decode 0 0 0x80 0xBF bs)
      else if b < lo \<or> hi < b then 0xFFFD # utf8_decode 0 0 0x80 0xBF (b # bs)
      else if needed = 1 then (cp * 64 + b mod 64) # utf8_decode 0 0 0x80 0xBF bs
      else utf8_decode (cp * 64 + b mod 64) (needed - 1) 0x80 0xBF bs)"
  by pat_completeness auto
termination
  by (relation "measures [\<lambda>(cp, needed, lo, hi, bs). length bs,
                          \<lambda>(cp, needed, lo, hi, bs). needed]") auto

definition utf16_encode :: "nat \<Rightarrow> utf16" where
  "utf16_encode cp =
     (if cp < 0x10000 then [of_nat cp]
      else [of_nat (0xD800 + (cp - 0x10000) div 0x400),
            of_nat (0xDC00 + (cp - 0x10000) mod 0x400)])"

definition Buffer_toString :: "byte list \<Rightarrow> utf16" where
  "Buffer_toString buf = concat (map utf16_encode (utf8_decode 0 0 0x80 0xBF (map unat buf)))"

text \<open>\<^verbatim>\<open>s.split(sep)\<close> for a one-unit separator: never empty, one more piece than separators.\<close>

fun split :: "'a \<Rightarrow> 'a list \<Rightarrow> 'a list list" where
  "split sep [] = [[]]"
| "split sep (x # xs) =
     (if x = sep then [] # split sep xs
      else (case split sep xs of [] \<Rightarrow> [[x]] | l # ls \<Rightarrow> (x # l) # ls))"

definition newline :: "16 word" where
  "newline = 0x0A"

subsection \<open>The log decoder\<close>

record EmulatorLog =
  level :: string
  logtype :: string
  logtext :: utf16

text \<open>What \<^verbatim>\<open>onData\<close> does to the outside: a log event on the emitter, or a kill of the child process.\<close>

datatype effect = Emit EmulatorLog | Kill

definition killed :: EmulatorLog where
  "killed = \<lparr>level = ''SYSTEM'', logtype = ''runtime-status'', logtext = str ''killed''\<rparr>"

text \<open>
  The body of the \<^verbatim>\<open>forEach\<close> over the complete lines. \<^verbatim>\<open>EmulatorLog.fromJSON\<close> is
  declared in \<^verbatim>\<open>types.ts\<close> and is the parameter \<open>fromJSON\<close>.
\<close>

definition perLine :: "(utf16 \<Rightarrow> EmulatorLog) \<Rightarrow> utf16 \<Rightarrow> effect list" where
  "perLine fromJSON line =
     (let log = fromJSON line
      in Emit log # (if level log = ''FATAL'' then [Emit killed, Kill] else []))"

text \<open>\<^verbatim>\<open>onData\<close> after the chunk is decoded: \<open>val\<close> is \<^verbatim>\<open>buffer.value\<close> on entry; the result is
  the effects in order and \<^verbatim>\<open>buffer.value\<close> on exit.\<close>

definition onText :: "(utf16 \<Rightarrow> EmulatorLog) \<Rightarrow> utf16 \<Rightarrow> utf16 \<Rightarrow> effect list \<times> utf16" where
  "onText fromJSON val s =
     (let val1 = val @ s;
          lines = split newline val1
      in ((if length lines > 1 then concat (map (perLine fromJSON) (butlast lines)) else []),
          last lines))"

definition onData :: "(utf16 \<Rightarrow> EmulatorLog) \<Rightarrow> utf16 \<Rightarrow> byte list \<Rightarrow> effect list \<times> utf16" where
  "onData fromJSON val buf = onText fromJSON val (Buffer_toString buf)"

text \<open>One stream: the chunks arrive in order, each handled by \<^verbatim>\<open>onData\<close> on the stream's own buffer.\<close>

fun feed :: "(utf16 \<Rightarrow> EmulatorLog) \<Rightarrow> utf16 \<Rightarrow> byte list list \<Rightarrow> effect list \<times> utf16" where
  "feed fromJSON val [] = ([], val)"
| "feed fromJSON val (buf # bufs) =
     (case onData fromJSON val buf of
        (es, val1) \<Rightarrow> (case feed fromJSON val1 bufs of (es', val2) \<Rightarrow> (es @ es', val2)))"

text \<open>The log records a run emitted, and the number of kills.\<close>

fun emitted :: "effect list \<Rightarrow> EmulatorLog list" where
  "emitted [] = []"
| "emitted (Emit l # es) = l # emitted es"
| "emitted (Kill # es) = emitted es"

definition kills :: "effect list \<Rightarrow> nat" where
  "kills es = count_list es Kill"

text \<open>A line parser to run the decoder with: the line \<open>fatalRecord\<close> is the record it
  spells, of level \<^verbatim>\<open>FATAL\<close>; any other line is taken as not structured and becomes a user
  log whose text is the line. \<open>bytes\<close> is the buffer that holds an ASCII text.\<close>

definition fatalRecord :: string where
  \<open>fatalRecord = ''{"level":"FATAL","type":"runtime-error","text":"boom"}''\<close>

definition bytes :: "string \<Rightarrow> byte list" where
  "bytes s = map (\<lambda>c. of_nat (of_char c)) s"

definition plainLog :: "utf16 \<Rightarrow> EmulatorLog" where
  "plainLog line =
     (if line = str fatalRecord
      then \<lparr>level = ''FATAL'', logtype = ''runtime-error'', logtext = str ''boom''\<rparr>
      else \<lparr>level = ''USER'', logtype = ''function-log'', logtext = line\<rparr>)"

text \<open>The lines a stream has completed so far, from an empty buffer, and those among
  some lines whose record is of level \<^verbatim>\<open>FATAL\<close>.\<close>

definition completeLines :: "byte list list \<Rightarrow> utf16 list" where
  "completeLines bufs = butlast (split newline (concat (map Buffer_toString bufs)))"

definition fatalLines :: "(utf16 \<Rightarrow> EmulatorLog) \<Rightarrow> utf16 list \<Rightarrow> utf16 list" where
  "fatalLines fromJSON ls = filter (\<lambda>l. level (fromJSON l) = ''FATAL'') ls"

subsection \<open>JSON values\<close>

text \<open>
  The value \<^verbatim>\<open>JSON.parse\<close> returns. A number carries the text JavaScript prints for it,
  an object its own members in order, each key once. \<^verbatim>\<open>JSON.parse\<close> itself is the
  parameter \<open>JSON_parse\<close> of the handlers: \<open>None\<close> when it throws a \<^verbatim>\<open>SyntaxError\<close>.
\<close>

datatype json = JNull | JBool bool | JNum string | JStr string | JArr "json list"
  | JObj "(string \<times> json) list"



datatype error =
    FirebaseError string
  | SyntaxError
  | TypeError
  | Undefined
  | RequestError
  | ErrorBundle nat "utf16 option"


subsection \<open>Trigger definitions and the emulator state\<close>

text \<open>The members of \<^verbatim>\<open>EmulatedTriggerDefinition\<close> and \<^verbatim>\<open>EventTrigger\<close>, declared in
  \<^verbatim>\<open>functionsEmulatorShared.ts\<close>, that the file reads, and the service that the event
  source names; a request with the parameters of its route and its body as text.\<close>

record EventTrigger =
  resource :: string
  eventType :: string
  service :: string

record EmulatedTriggerDefinition =
  name :: string
  entryPoint :: string
  httpsTrigger :: bool
  eventTrigger :: "EventTrigger option"
  schedule :: bool

record EmulatedTriggerRecord =
  def :: EmulatedTriggerDefinition
  enabled :: bool

record Request =
  req_method :: string
  req_url :: string
  project_id :: string
  trigger_name :: string
  rawBody :: string

text \<open>A task handed to the work queue is a closure; the model keeps what it closes over.\<close>

datatype work =
    BackgroundWork Request string string json
  | MulticastWork Request string string json

datatype loglevel = DEBUG | WARN | SUCCESS | BULLET

datatype logmsg =
    Ignoring_background_trigger string
  | Unsupported_trigger string
  | Undefined_eventTrigger string
  | Malformed_resource string string
  | Sentinel_namespace
  | Error_adding_trigger
  | Function_initialized string string "string option"
  | Function_ignored string string

record FunctionsEmulator =
  args_projectId :: string
  triggers :: "string \<rightharpoonup> EmulatedTriggerRecord"
  multicastTriggers :: "string \<rightharpoonup> string list"
  workQueue :: "work list"
  runtimes :: "string list"
  logged :: "(loglevel \<times> logmsg) list"

text \<open>
  \<open>triggers\<close> and \<open>multicastTriggers\<close> are the dictionaries their types declare.
  \<open>workQueue\<close> is the pending sequence of the work queue, \<open>runtimes\<close> the trigger ids
  \<^verbatim>\<open>startFunctionRuntime\<close> was called for, \<open>logged\<close> what went to the emulator's logger.
\<close>

datatype status = acknowledged | multicast_acknowledged

datatype response = StatusSend nat "utf16 option" | SendStatus nat | ResJson status

definition logLine :: "loglevel \<Rightarrow> logmsg \<Rightarrow> FunctionsEmulator \<Rightarrow> FunctionsEmulator" where
  "logLine lv m st = st\<lparr>logged := logged st @ [(lv, m)]\<rparr>"

text \<open>Modelled from the spec: \<^verbatim>\<open>WorkQueue.submit\<close> is declared in \<^verbatim>\<open>workQueue.ts\<close>; the work
  queue holds submitted tasks in a pending ordered sequence, from which they are admitted
  to execute.\<close>

definition submit :: "work \<Rightarrow> FunctionsEmulator \<Rightarrow> FunctionsEmulator" where
  "submit w st = st\<lparr>workQueue := workQueue st @ [w]\<rparr>"

subsection \<open>The registry\<close>

definition getTriggerDefinitionByName ::
  "FunctionsEmulator \<Rightarrow> string \<Rightarrow> error + EmulatedTriggerDefinition" where
  "getTriggerDefinitionByName st triggerName =
     (case triggers st triggerName of
        None \<Rightarrow> Inl (FirebaseError (''No trigger with name '' @ triggerName))
      | Some record \<Rightarrow> Inr (def record))"

definition addTriggerRecord :: "EmulatedTriggerDefinition \<Rightarrow> FunctionsEmulator \<Rightarrow> FunctionsEmulator" where
  "addTriggerRecord d st = st\<lparr>triggers := (triggers st)(name d \<mapsto> \<lparr>def = d, enabled = True\<rparr>)\<rparr>"


text \<open>\<^verbatim>\<open>disableBackgroundTriggers\<close>, without its log lines (one per disabled record, in the
  order of \<^verbatim>\<open>Object.values\<close>).\<close>

definition disableBackgroundTriggers :: "FunctionsEmulator \<Rightarrow> FunctionsEmulator" where
  "disableBackgroundTriggers st =
     st\<lparr>triggers := (\<lambda>n. case triggers st n of
                             None \<Rightarrow> None
                           | Some record \<Rightarrow>
                               if eventTrigger (def record) \<noteq> None
                               then Some (record\<lparr>enabled := False\<rparr>)
                               else Some record)\<rparr>"

subsection \<open>The request handlers\<close>

definition backgroundHandler ::
  "(string \<Rightarrow> json option) \<Rightarrow> Request \<Rightarrow> FunctionsEmulator
     \<Rightarrow> error + (FunctionsEmulator \<times> response option)" where
  "backgroundHandler JSON_parse req st =
     (let triggerId = trigger_name req;
          projectId = project_id req
      in case JSON_parse (rawBody req) of
           None \<Rightarrow> Inl SyntaxError
         | Some proto \<Rightarrow>
             (case triggers st triggerId of
                Some record \<Rightarrow>
                  if \<not> enabled record
                  then Inr (logLine DEBUG (Ignoring_background_trigger (req_url req)) st,
                            Some (StatusSend 204 None))
                  else Inr (submit (BackgroundWork req projectId triggerId proto) st, None)
              | None \<Rightarrow> Inr (submit (BackgroundWork req projectId triggerId proto) st, None)))"


subsection \<open>Collaborators\<close>

datatype Emulators = FUNCTIONS | FIRESTORE | DATABASE | PUBSUB | AUTH

text \<open>The body of a registration request, before \<^verbatim>\<open>JSON.stringify\<close>.\<close>

datatype payload =
    DatabaseBundle string string string string
  | FirestoreBundle "EventTrigger option"

text \<open>
  What the file imports and only calls: \<^verbatim>\<open>getFunctionService\<close>, \<^verbatim>\<open>getFunctionRegion\<close> and
  the \<^verbatim>\<open>Constants\<close> table; whether \<^verbatim>\<open>EmulatorRegistry\<close> has an emulator running and on
  which port; whether a request of \<^verbatim>\<open>api.request\<close> and a call of the pubsub emulator's
  \<^verbatim>\<open>addTrigger\<close> are fulfilled (\<open>True\<close>) or rejected; the host and port of \<^verbatim>\<open>getInfo\<close>, the
  port as a template literal prints it.
\<close>

record Environment =
  getFunctionService :: "EmulatedTriggerDefinition \<Rightarrow> string"
  getFunctionRegion :: "EmulatedTriggerDefinition \<Rightarrow> string"
  getServiceName :: "string \<Rightarrow> string"
  SERVICE_FIRESTORE :: string
  SERVICE_REALTIME_DATABASE :: string
  SERVICE_PUBSUB :: string
  SERVICE_AUTH :: string
  registry_get :: "Emulators \<Rightarrow> bool"
  registry_getPort :: "Emulators \<Rightarrow> nat option"
  api_request :: "string \<Rightarrow> string \<Rightarrow> payload \<Rightarrow> bool"
  pubsub_addTrigger :: "string \<Rightarrow> string \<Rightarrow> bool"
  info_host :: string
  info_port :: string

subsection \<open>The database resource pattern\<close>

text \<open>
  \<^verbatim>\<open>^projects/[^/]+/instances/([^/]+)/refs(/.*)$\<close>, piece by piece. A run \<^verbatim>\<open>[^/]+\<close> is
  followed by a literal that starts with a slash, so the longest run is the only one
  that can match; \<^verbatim>\<open>.\<close> matches no line terminator.
\<close>

definition literal :: "string \<Rightarrow> string \<Rightarrow> string option" where
  "literal p s = (if take (length p) s = p then Some (drop (length p) s) else None)"

definition notSlashes :: "string \<Rightarrow> (string \<times> string) option" where
  "notSlashes s =
     (let run = takeWhile (\<lambda>c. c \<noteq> CHR ''/'') s
      in if run = [] then None else Some (run, dropWhile (\<lambda>c. c \<noteq> CHR ''/'') s))"

definition lineTerminator :: "char \<Rightarrow> bool" where
  "lineTerminator c = (c = CHR 0x0A \<or> c = CHR 0x0D)"

definition DATABASE_PATH_PATTERN_exec :: "string \<Rightarrow> (string \<times> string) option" where
  "DATABASE_PATH_PATTERN_exec s =
     (case literal ''projects/'' s of
        None \<Rightarrow> None
      | Some r1 \<Rightarrow>
     (case notSlashes r1 of
        None \<Rightarrow> None
      | Some (proj, r2) \<Rightarrow>
     (case literal ''/instances/'' r2 of
        None \<Rightarrow> None
      | Some r3 \<Rightarrow>
     (case notSlashes r3 of
        None \<Rightarrow> None
      | Some (instance, r4) \<Rightarrow>
     (case literal ''/refs'' r4 of
        None \<Rightarrow> None
      | Some path \<Rightarrow>
          (case path of
             [] \<Rightarrow> None
           | c # cs \<Rightarrow> if c = CHR ''/'' \<and> list_all (\<lambda>x. \<not> lineTerminator x) cs
                       then Some (instance, path) else None))))))"

subsection \<open>Registering a trigger with its collaborator\<close>

text \<open>
  Each of the three asynchronous registrations returns what it logged and how its
  promise settled: \<open>Inr added\<close> when fulfilled, \<open>Inl\<close> when rejected.
\<close>

definition addRealtimeDatabaseTrigger ::
  "Environment \<Rightarrow> string \<Rightarrow> EmulatedTriggerDefinition
     \<Rightarrow> (loglevel \<times> logmsg) list \<times> (error + bool)" where
  "addRealtimeDatabaseTrigger env projectId definition =
     (if \<not> registry_get env DATABASE then ([], Inr False)
      else case eventTrigger definition of
        None \<Rightarrow> ([(WARN, Undefined_eventTrigger (name definition))], Inl Undefined)
      | Some et \<Rightarrow>
          (case DATABASE_PATH_PATTERN_exec (resource et) of
             None \<Rightarrow> ([(WARN, Malformed_resource (name definition) (resource et))], Inl Undefined)
           | Some (instance, path) \<Rightarrow>
               (let bundle = DatabaseBundle
                      (''projects/'' @ projectId @ ''/locations/_/functions/'' @ name definition)
                      path
                      (eventType et)
                      (''projects/'' @ projectId @ ''/topics/'' @ name definition);
                    setTriggersPath = ''/.settings/functionTriggers.json''
                      @ (if instance \<noteq> [] then ''?ns='' @ instance else []);
                    logs = (if instance \<noteq> [] then [] else [(WARN, Sentinel_namespace)])
                in if api_request env ''POST'' setTriggersPath bundle
                   then (logs, Inr True)
                   else (logs @ [(WARN, Error_adding_trigger)], Inl RequestError))))"




subsection \<open>Trigger discovery\<close>







subsection \<open>Invoking a background trigger\<close>

text \<open>What the worker delivers first: a log of level \<^verbatim>\<open>FATAL\<close> with its text, or the end
  of the invocation.\<close>

datatype worker_event = Fatal utf16 | Done

text \<open>\<^verbatim>\<open>startFunctionRuntime\<close> hands a bundle to \<^verbatim>\<open>invokeRuntime\<close>, which reuses a worker of the
  pool or spawns a process; the pool is declared in \<^verbatim>\<open>functionsRuntimeWorker.ts\<close>, and the
  model records the call.\<close>

definition startFunctionRuntime :: "string \<Rightarrow> FunctionsEmulator \<Rightarrow> FunctionsEmulator" where
  "startFunctionRuntime triggerId st = st\<lparr>runtimes := runtimes st @ [triggerId]\<rparr>"

text \<open>The promise of \<^verbatim>\<open>handleBackgroundTrigger\<close>: \<open>Inl\<close> what it is rejected with, \<open>Inr\<close>
  what it resolves to. An exception in the executor of the promise rejects it. The
  analytics call has no part in the result.\<close>

definition handleBackgroundTrigger ::
  "Environment \<Rightarrow> worker_event \<Rightarrow> string \<Rightarrow> string \<Rightarrow> FunctionsEmulator
     \<Rightarrow> FunctionsEmulator \<times> (error + status)" where
  "handleBackgroundTrigger env ev projectId triggerId st =
     (case getTriggerDefinitionByName st triggerId of
        Inl e \<Rightarrow> (st, Inl e)
      | Inr trigger \<Rightarrow>
          (let svc = getFunctionService env trigger;
               st1 = startFunctionRuntime triggerId st;
               settle = (case ev of
                           Fatal t \<Rightarrow> Inl (ErrorBundle 500 (Some t))
                         | Done \<Rightarrow> Inr acknowledged)
           in if projectId \<noteq> args_projectId st then
                (if svc \<noteq> SERVICE_REALTIME_DATABASE env then (st1, Inl (ErrorBundle 404 None))
                 else case eventTrigger trigger of
                   None \<Rightarrow> (st1, Inl TypeError)
                 | Some et \<Rightarrow>
                     if \<not> prefix (''projects/_/instances/'' @ projectId) (resource et)
                     then (st1, Inl (ErrorBundle 404 None))
                     else (st1, settle))
              else (st1, settle)))"

subsection \<open>Sample inputs\<close>

text \<open>An environment in which every collaborator runs and accepts every request but the
  Firestore emulator, which rejects them; the service of a definition is the one its
  event trigger names.\<close>

definition sampleEnv :: Environment where
  "sampleEnv =
     \<lparr>getFunctionService = (\<lambda>d. case eventTrigger d of None \<Rightarrow> ''unknown'' | Some et \<Rightarrow> service et),
      getFunctionRegion = (\<lambda>d. ''us-central1''),
      getServiceName = (\<lambda>s. s),
      SERVICE_FIRESTORE = ''firestore.googleapis.com'',
      SERVICE_REALTIME_DATABASE = ''firebaseio.com'',
      SERVICE_PUBSUB = ''pubsub.googleapis.com'',
      SERVICE_AUTH = ''firebaseauth.googleapis.com'',
      registry_get = (\<lambda>e. e \<noteq> PUBSUB),
      registry_getPort = (\<lambda>e. if e = PUBSUB then None else Some 9000),
      api_request = (\<lambda>method path body. method = ''POST''),
      pubsub_addTrigger = (\<lambda>topic nm. True),
      info_host = ''localhost'',
      info_port = ''5001''\<rparr>"

definition emptyEmulator :: FunctionsEmulator where
  "emptyEmulator =
     \<lparr>args_projectId = ''demo'', triggers = Map.empty, multicastTriggers = Map.empty,
      workQueue = [], runtimes = [], logged = []\<rparr>"


definition eventFn :: "string \<Rightarrow> string \<Rightarrow> string \<Rightarrow> EmulatedTriggerDefinition" where
  "eventFn nm svc res =
     \<lparr>name = nm, entryPoint = nm, httpsTrigger = False,
      eventTrigger = Some \<lparr>resource = res, eventType = ''evt'', service = svc\<rparr>,
      schedule = False\<rparr>"

definition sampleRequest :: "string \<Rightarrow> string \<Rightarrow> string \<Rightarrow> Request" where
  "sampleRequest proj trig body =
     \<lparr>req_method = ''POST'', req_url = ''/functions/projects/'' @ proj @ ''/triggers/'' @ trig,
      project_id = proj, trigger_name = trig, rawBody = body\<rparr>"

text \<open>A fragment of \<^verbatim>\<open>JSON.parse\<close>, enough for the bodies the examples send: it reads the
  three texts it accepts as \<^verbatim>\<open>JSON.parse\<close> does, and it rejects the empty text, which is
  not JSON.\<close>

definition eventBody :: string where
  \<open>eventBody = ''{"eventType":"evt"}''\<close>

definition sampleParse :: "string \<Rightarrow> json option" where
  "sampleParse body =
     (if body = eventBody then Some (JObj [(''eventType'', JStr ''evt'')])
      else if body = ''{}'' then Some (JObj [])
      else if body = ''null'' then Some JNull
      else None)"

text \<open>A registry with one database trigger, suspended.\<close>

definition suspended :: FunctionsEmulator where
  "suspended = disableBackgroundTriggers
     (addTriggerRecord (eventFn ''onValue'' ''firebaseio.com'' ''projects/_/instances/demo/refs/a'')
        emptyEmulator)"


section \<open>The log decoder\<close>

subsection \<open>Splitting into lines\<close>

lemma split_nonempty: "split sep xs \<noteq> []"
  by (induction xs) (auto split: list.splits)

lemma split_no_sep: "sep \<notin> set xs \<Longrightarrow> split sep xs = [xs]"
  by (induction xs) auto

lemma split_first_sep: "sep \<notin> set xs \<Longrightarrow> split sep (xs @ sep # ys) = xs # split sep ys"
  by (induction xs) (auto split: list.splits simp: split_nonempty)

lemma last_split_no_sep: "sep \<notin> set (last (split sep xs))"
  by (induction xs) (auto split: list.splits simp: split_nonempty)

text \<open>The pieces of a text that continues: the complete pieces of the first part, then
  those of what was left over followed by the second part.\<close>

lemma split_append:
  "butlast (split sep (a @ b)) = butlast (split sep a) @ butlast (split sep (last (split sep a) @ b))
   \<and> last (split sep (a @ b)) = last (split sep (last (split sep a) @ b))"
proof (induction "length a" arbitrary: a rule: less_induct)
  case less
  show ?case
  proof (cases "sep \<in> set a")
    case False
    then show ?thesis by (simp add: split_no_sep)
  next
    case True
    then obtain xs ys where a: "a = xs @ sep # ys" and xs: "sep \<notin> set xs"
      by (meson split_list_first)
    have "length ys < length a" using a by simp
    from less [OF this] show ?thesis
      using xs by (simp add: a split_first_sep split_nonempty)
  qed
qed

lemma onText_eq:
  "onText fromJSON val s =
     (concat (map (perLine fromJSON) (butlast (split newline (val @ s)))),
      last (split newline (val @ s)))"
proof -
  have "length (split newline (val @ s)) \<le> 1 \<Longrightarrow> butlast (split newline (val @ s)) = []"
    by (cases "split newline (val @ s)") auto
  then show ?thesis
    by (auto simp: onText_def Let_def)
qed

text \<open>A stream that starts with a buffer free of newlines emits one group of effects per
  completed line of the decoded chunks, in order, and keeps the unfinished rest.\<close>

lemma feed_lines_from:
  "newline \<notin> set val \<Longrightarrow>
   feed fromJSON val bufs =
     (concat (map (perLine fromJSON)
        (butlast (split newline (val @ concat (map Buffer_toString bufs))))),
      last (split newline (val @ concat (map Buffer_toString bufs))))"
proof (induction bufs arbitrary: val)
  case Nil
  then show ?case by (simp add: split_no_sep)
next
  case (Cons buf bufs)
  have "newline \<notin> set (last (split newline (val @ Buffer_toString buf)))"
    by (rule last_split_no_sep)
  from Cons.IH [OF this] show ?case
    using split_append [of newline "val @ Buffer_toString buf" "concat (map Buffer_toString bufs)"]
    by (simp add: onData_def onText_eq)
qed

lemma feed_lines:
  "feed fromJSON [] bufs =
     (concat (map (perLine fromJSON) (completeLines bufs)),
      last (split newline (concat (map Buffer_toString bufs))))"
  using feed_lines_from [of "[]" fromJSON bufs] by (simp add: completeLines_def)

subsection \<open>Chunk boundaries\<close>

text \<open>A line without its newline stays in the buffer and nothing is parsed.\<close>

lemma onData_partial_line:
  "newline \<notin> set (val @ Buffer_toString buf) \<Longrightarrow>
     onData fromJSON val buf = ([], val @ Buffer_toString buf)"
  by (simp add: onData_def onText_eq split_no_sep)

text \<open>Two chunks whose decodings add up to the decoding of the whole give what the whole
  gives: the lines are reassembled across the boundary.\<close>

lemma feed_two_chunks:
  assumes "Buffer_toString (a @ b) = Buffer_toString a @ Buffer_toString b"
  shows "feed fromJSON [] [a, b] = feed fromJSON [] [a @ b]"
  using assms by (simp add: feed_lines completeLines_def del: feed.simps)

lemma utf8_decode_ascii:
  "\<forall>b\<in>set bs. b \<le> 0x7F \<Longrightarrow> utf8_decode 0 0 0x80 0xBF bs = bs"
  by (induction bs) auto

lemma Buffer_toString_ascii:
  assumes "\<forall>b\<in>set buf. b \<le> 0x7F"
  shows "Buffer_toString buf = map ucast buf"
proof -
  have "\<forall>n\<in>set (map unat buf). n \<le> 0x7F"
    using assms by (auto simp: word_le_nat_alt)
  then have "utf8_decode 0 0 0x80 0xBF (map unat buf) = map unat buf"
    by (rule utf8_decode_ascii)
  moreover have "concat (map utf16_encode (map unat bs)) = map ucast bs" for bs :: "byte list"
  proof (induction bs)
    case Nil
    show ?case by simp
  next
    case (Cons b bs)
    have "unat b < 256" using unsigned_less [of b, where ?'a = nat] by simp
    then show ?case using Cons by (simp add: utf16_encode_def)
  qed
  ultimately show ?thesis by (simp add: Buffer_toString_def)
qed

text \<open>So a stream of ASCII bytes can be cut anywhere.\<close>

lemma feed_ascii_chunks:
  assumes "\<forall>x\<in>set (a @ b). x \<le> 0x7F"
  shows "feed fromJSON [] [a, b] = feed fromJSON [] [a @ b]"
proof -
  have "Buffer_toString (a @ b) = Buffer_toString a @ Buffer_toString b"
    using assms by (simp add: Buffer_toString_ascii)
  then show ?thesis by (rule feed_two_chunks)
qed

text \<open>
  C2. Cutting a byte stream in two at any place gives the same log records as the uncut
  stream. The decoder does this only where the cut falls between characters: each chunk
  is decoded on its own, so the two bytes of U+00E9 followed by a newline give one record
  with the text U+00E9 when they arrive together, and one record with the text
  U+FFFD U+FFFD when the chunk ends after the first byte.
\<close>

theorem onData_split_inside_character:
  "[0xC3] @ [0xA9, 0x0A] = [0xC3, 0xA9, 0x0A :: byte]
   \<and> fst (feed fromJSON [] [[0xC3, 0xA9, 0x0A]]) = perLine fromJSON [0xE9]
   \<and> fst (feed fromJSON [] [[0xC3], [0xA9, 0x0A]]) = perLine fromJSON [0xFFFD, 0xFFFD]
   \<and> emitted (fst (feed plainLog [] [[0xC3, 0xA9, 0x0A]])) =
       [\<lparr>level = ''USER'', logtype = ''function-log'', logtext = [0xE9]\<rparr>]
   \<and> emitted (fst (feed plainLog [] [[0xC3], [0xA9, 0x0A]])) =
       [\<lparr>level = ''USER'', logtype = ''function-log'', logtext = [0xFFFD, 0xFFFD]\<rparr>]
   \<and> emitted (fst (feed plainLog [] [[0xC3], [0xA9, 0x0A]])) \<noteq>
       emitted (fst (feed plainLog [] [[0xC3, 0xA9, 0x0A]]))"
  by (simp add: Buffer_toString_def utf16_encode_def onData_def onText_def plainLog_def
      perLine_def newline_def str_def fatalRecord_def)

subsection \<open>Fatal records\<close>

lemma kills_perLine:
  "kills (concat (map (perLine fromJSON) ls)) = length (fatalLines fromJSON ls)"
  by (induction ls) (auto simp: kills_def perLine_def fatalLines_def Let_def)

lemma emitted_append: "emitted (es @ fs) = emitted es @ emitted fs"
  by (induction es rule: emitted.induct) auto

lemma killed_not_fatal: "level killed \<noteq> ''FATAL''"
  by (simp add: killed_def)

lemma killed_perLine:
  "count_list (emitted (concat (map (perLine fromJSON) ls))) killed =
     length (fatalLines fromJSON ls) + count_list (map fromJSON ls) killed"
  by (induction ls) (auto simp: perLine_def fatalLines_def Let_def emitted_append killed_not_fatal)

text \<open>
  C3, as stated: a stream in which a FATAL record appears kills the process exactly once
  and emits exactly one \<^verbatim>\<open>killed\<close> event, also when it holds more than one FATAL line.
  One chunk with the same FATAL record on two lines: two kills and two \<^verbatim>\<open>killed\<close>
  events.
\<close>

theorem onData_fatal_twice_counterexample:
  "fatalLines plainLog (completeLines
      [bytes (fatalRecord @ [CHR 0x0A] @ fatalRecord @ [CHR 0x0A])]) \<noteq> []
   \<and> kills (fst (feed plainLog []
        [bytes (fatalRecord @ [CHR 0x0A] @ fatalRecord @ [CHR 0x0A])])) = 2
   \<and> count_list (emitted (fst (feed plainLog []
        [bytes (fatalRecord @ [CHR 0x0A] @ fatalRecord @ [CHR 0x0A])]))) killed = 2"
  by (simp add: Buffer_toString_def utf16_encode_def onData_def onText_def plainLog_def
      perLine_def newline_def str_def kills_def killed_def completeLines_def fatalLines_def
      bytes_def fatalRecord_def)

text \<open>
  C3, amended: every FATAL record the decoder parses kills the process once and emits one
  synthetic \<^verbatim>\<open>killed\<close> event. Over a whole stream, however it is cut into chunks, the
  number of kills is the number of completed lines whose record is FATAL, and the
  \<^verbatim>\<open>killed\<close> events are as many, next to those the process itself may have written as
  records: exactly one of each when the stream holds exactly one FATAL record.
\<close>

theorem onData_fatal_per_record:
  "kills (fst (feed fromJSON [] bufs)) = length (fatalLines fromJSON (completeLines bufs))
   \<and> count_list (emitted (fst (feed fromJSON [] bufs))) killed =
       length (fatalLines fromJSON (completeLines bufs))
       + count_list (map fromJSON (completeLines bufs)) killed"
  by (simp add: feed_lines kills_perLine killed_perLine)

section \<open>The registry\<close>



lemma suspended_onValue:
  "triggers suspended ''onValue'' =
     Some \<lparr>def = eventFn ''onValue'' ''firebaseio.com'' ''projects/_/instances/demo/refs/a'',
           enabled = False\<rparr>"
  by (simp add: suspended_def disableBackgroundTriggers_def addTriggerRecord_def eventFn_def)




section \<open>The request handlers\<close>


lemma suspended_queue: "workQueue suspended = [] \<and> runtimes suspended = []"
  by (simp add: suspended_def disableBackgroundTriggers_def addTriggerRecord_def
      emptyEmulator_def)

text \<open>
  C1, as stated: every background request for a trigger whose record is disabled is
  answered 204. The handler parses the body before it looks at the record: a request
  for the suspended trigger with an empty body ends in the parser's exception, and no
  response is sent.
\<close>

theorem backgroundHandler_disabled_counterexample:
  "triggers suspended (trigger_name (sampleRequest ''demo'' ''onValue'' [])) =
     Some \<lparr>def = eventFn ''onValue'' ''firebaseio.com'' ''projects/_/instances/demo/refs/a'',
           enabled = False\<rparr>
   \<and> backgroundHandler sampleParse (sampleRequest ''demo'' ''onValue'' []) suspended
       = Inl SyntaxError"
  by (simp add: backgroundHandler_def sampleParse_def eventBody_def sampleRequest_def
      suspended_onValue)

text \<open>
  C1, amended: for every background request whose trigger name has a record with
  enabled=false and whose body is JSON, the handler responds 204 with no content at
  once and changes nothing but the log; whatever the body, it submits no task to the
  work queue and starts no runtime. A body that is not JSON ends the handler with the
  parser's exception before any response.
\<close>

theorem backgroundHandler_disabled:
  assumes "triggers st (trigger_name req) = Some r" and "\<not> enabled r"
  shows "(\<forall>proto. JSON_parse (rawBody req) = Some proto \<longrightarrow>
            backgroundHandler JSON_parse req st =
              Inr (logLine DEBUG (Ignoring_background_trigger (req_url req)) st,
                   Some (StatusSend 204 None)))
         \<and> (JSON_parse (rawBody req) = None \<longrightarrow>
              backgroundHandler JSON_parse req st = Inl SyntaxError)
         \<and> (\<forall>st' res. backgroundHandler JSON_parse req st = Inr (st', res) \<longrightarrow>
              workQueue st' = workQueue st \<and> runtimes st' = runtimes st)"
  using assms
  by (auto simp: backgroundHandler_def logLine_def Let_def split: option.splits)

text \<open>C1, amended, at a request with the body \<^verbatim>\<open>{}\<close> for the suspended trigger.\<close>

theorem backgroundHandler_disabled_witness:
  "triggers suspended (trigger_name (sampleRequest ''demo'' ''onValue'' ''{}'')) =
     Some \<lparr>def = eventFn ''onValue'' ''firebaseio.com'' ''projects/_/instances/demo/refs/a'',
           enabled = False\<rparr>
   \<and> \<not> enabled \<lparr>def = eventFn ''onValue'' ''firebaseio.com'' ''projects/_/instances/demo/refs/a'',
                 enabled = False\<rparr>
   \<and> sampleParse (rawBody (sampleRequest ''demo'' ''onValue'' ''{}'')) = Some (JObj [])
   \<and> map_sum id snd (backgroundHandler sampleParse (sampleRequest ''demo'' ''onValue'' ''{}'')
        suspended) = Inr (Some (StatusSend 204 None))
   \<and> map_sum id (workQueue \<circ> fst)
        (backgroundHandler sampleParse (sampleRequest ''demo'' ''onValue'' ''{}'') suspended)
       = Inr []
   \<and> map_sum id (runtimes \<circ> fst)
        (backgroundHandler sampleParse (sampleRequest ''demo'' ''onValue'' ''{}'') suspended)
       = Inr []"
proof -
  let ?req = "sampleRequest ''demo'' ''onValue'' ''{}''"
  let ?r = "\<lparr>def = eventFn ''onValue'' ''firebaseio.com'' ''projects/_/instances/demo/refs/a'',
             enabled = False\<rparr>"
  have a: "triggers suspended (trigger_name ?req) = Some ?r"
    by (simp add: sampleRequest_def suspended_onValue)
  have b: "\<not> enabled ?r" by simp
  have c: "sampleParse (rawBody ?req) = Some (JObj [])"
    by (simp add: sampleParse_def eventBody_def sampleRequest_def)
  have e: "backgroundHandler sampleParse ?req suspended =
             Inr (logLine DEBUG (Ignoring_background_trigger (req_url ?req)) suspended,
                  Some (StatusSend 204 None))"
    using backgroundHandler_disabled [OF a b, of sampleParse] c by blast
  show ?thesis
    using a c by (simp add: e logLine_def suspended_queue)
qed




section \<open>Invoking a background trigger\<close>

text \<open>
  C10. A background invocation of a registered trigger for a project other than the
  emulator's is rejected with code 404, unless the trigger's service is the Realtime
  Database and its resource starts with \<^verbatim>\<open>projects/_/instances/\<close> followed by the requested
  project; an invocation for the emulator's own project is never rejected with 404.
  The service of a definition comes from \<^verbatim>\<open>getFunctionService\<close>, which reads it from the
  event trigger: a definition it calls a database trigger has one.
\<close>

theorem handleBackgroundTrigger_project_check:
  assumes "triggers st triggerId = Some r"
      and "getFunctionService env (def r) = SERVICE_REALTIME_DATABASE env
             \<Longrightarrow> eventTrigger (def r) \<noteq> None"
  shows "(projectId \<noteq> args_projectId st \<longrightarrow>
            (snd (handleBackgroundTrigger env ev projectId triggerId st)
               = Inl (ErrorBundle 404 None))
            = (\<not> (getFunctionService env (def r) = SERVICE_REALTIME_DATABASE env
                  \<and> (\<exists>et. eventTrigger (def r) = Some et
                        \<and> prefix (''projects/_/instances/'' @ projectId) (resource et)))))
         \<and> (projectId = args_projectId st \<longrightarrow>
              snd (handleBackgroundTrigger env ev projectId triggerId st)
                \<noteq> Inl (ErrorBundle 404 None))"
  using assms
  by (cases ev) (auto simp: handleBackgroundTrigger_def getTriggerDefinitionByName_def Let_def
      split: option.splits)

text \<open>C10 at a database trigger of the namespace \<^verbatim>\<open>other\<close>, invoked for the projects
  \<^verbatim>\<open>third\<close>, \<^verbatim>\<open>other\<close> and \<^verbatim>\<open>demo\<close>, the emulator's own.\<close>

theorem handleBackgroundTrigger_project_check_witness:
  "triggers (addTriggerRecord
       (eventFn ''onValue'' ''firebaseio.com'' ''projects/_/instances/other/refs/a'')
       emptyEmulator) ''onValue''
     = Some \<lparr>def = eventFn ''onValue'' ''firebaseio.com'' ''projects/_/instances/other/refs/a'',
             enabled = True\<rparr>
   \<and> eventTrigger (eventFn ''onValue'' ''firebaseio.com'' ''projects/_/instances/other/refs/a'')
       \<noteq> None
   \<and> snd (handleBackgroundTrigger sampleEnv Done ''third'' ''onValue''
        (addTriggerRecord
           (eventFn ''onValue'' ''firebaseio.com'' ''projects/_/instances/other/refs/a'')
           emptyEmulator)) = Inl (ErrorBundle 404 None)
   \<and> snd (handleBackgroundTrigger sampleEnv Done ''other'' ''onValue''
        (addTriggerRecord
           (eventFn ''onValue'' ''firebaseio.com'' ''projects/_/instances/other/refs/a'')
           emptyEmulator)) \<noteq> Inl (ErrorBundle 404 None)
   \<and> snd (handleBackgroundTrigger sampleEnv Done ''demo'' ''onValue''
        (addTriggerRecord
           (eventFn ''onValue'' ''firebaseio.com'' ''projects/_/instances/other/refs/a'')
           emptyEmulator)) \<noteq> Inl (ErrorBundle 404 None)"
proof -
  let ?d = "eventFn ''onValue'' ''firebaseio.com'' ''projects/_/instances/other/refs/a''"
  let ?st = "addTriggerRecord ?d emptyEmulator"
  let ?r = "\<lparr>def = ?d, enabled = True\<rparr>"
  have a: "triggers ?st ''onValue'' = Some ?r"
    by (simp add: addTriggerRecord_def eventFn_def)
  have b: "eventTrigger (def ?r) \<noteq> None"
    by (simp add: eventFn_def)
  have p: "args_projectId ?st = ''demo''"
    by (simp add: addTriggerRecord_def emptyEmulator_def)
  have s: "getFunctionService sampleEnv ?d = SERVICE_REALTIME_DATABASE sampleEnv"
    by (simp add: sampleEnv_def eventFn_def)
  have e: "eventTrigger ?d
             = Some \<lparr>resource = ''projects/_/instances/other/refs/a'', eventType = ''evt'',
                     service = ''firebaseio.com''\<rparr>"
    by (simp add: eventFn_def)
  have "snd (handleBackgroundTrigger sampleEnv Done ''third'' ''onValue'' ?st)
          = Inl (ErrorBundle 404 None)"
    using handleBackgroundTrigger_project_check
            [where env = sampleEnv and projectId = "''third''" and ev = Done, OF a b]
    by (simp add: p s e)
  moreover have "snd (handleBackgroundTrigger sampleEnv Done ''other'' ''onValue'' ?st)
          \<noteq> Inl (ErrorBundle 404 None)"
    using handleBackgroundTrigger_project_check
            [where env = sampleEnv and projectId = "''other''" and ev = Done, OF a b]
    by (simp add: p s e)
  moreover have "snd (handleBackgroundTrigger sampleEnv Done ''demo'' ''onValue'' ?st)
          \<noteq> Inl (ErrorBundle 404 None)"
    using handleBackgroundTrigger_project_check
            [where env = sampleEnv and projectId = "''demo''" and ev = Done, OF a b]
    by (simp add: p)
  ultimately show ?thesis using a b by simp
qed

section \<open>Registering database triggers\<close>

lemma DATABASE_PATH_PATTERN_instance_nonempty:
  "DATABASE_PATH_PATTERN_exec s = Some (instance, path) \<Longrightarrow> instance \<noteq> []"
  by (auto simp: DATABASE_PATH_PATTERN_exec_def notSlashes_def Let_def
      split: option.splits list.splits if_splits)

text \<open>The branch that warns of the sentinel namespace is never taken: the pattern has
  already refused an empty instance.\<close>

lemma sentinel_never_logged:
  "(WARN, Sentinel_namespace) \<notin> set (fst (addRealtimeDatabaseTrigger env projectId d))"
  by (auto simp: addRealtimeDatabaseTrigger_def Let_def
      dest: DATABASE_PATH_PATTERN_instance_nonempty split: option.splits)

text \<open>
  C5. The resource \<^verbatim>\<open>projects/_/instances/myns/refs/foo/bar\<close> yields the namespace
  \<^verbatim>\<open>myns\<close> and the path \<^verbatim>\<open>/foo/bar\<close>. The resource \<^verbatim>\<open>projects/_/instances//refs/x\<close>, with
  an empty namespace, should register with a warning about the sentinel namespace; the
  pattern does not match it, and the registration is rejected with the warning of a
  malformed resource.
\<close>

theorem DATABASE_PATH_PATTERN_empty_namespace:
  "DATABASE_PATH_PATTERN_exec ''projects/_/instances/myns/refs/foo/bar''
     = Some (''myns'', ''/foo/bar'')
   \<and> DATABASE_PATH_PATTERN_exec ''projects/_/instances//refs/x'' = None
   \<and> addRealtimeDatabaseTrigger sampleEnv ''demo''
        (eventFn ''onValue'' ''firebaseio.com'' ''projects/_/instances//refs/x'')
      = ([(WARN, Malformed_resource ''onValue'' ''projects/_/instances//refs/x'')],
         Inl Undefined)"
  by (simp add: DATABASE_PATH_PATTERN_exec_def literal_def notSlashes_def lineTerminator_def
      addRealtimeDatabaseTrigger_def sampleEnv_def eventFn_def)

section \<open>Trigger discovery\<close>

subsection \<open>What a run leaves in the registry\<close>







subsection \<open>Runs on sample definitions\<close>








end
